theory Spec2Isabelle
  imports Main "HOL-Library.Word" "HOL-Library.Sublist"
begin

section \<open>The signon service of the IBM i client (src/service/signon.js)\<close>

text \<open>
  The file under verification is the handshake orchestrator \<^verbatim>\<open>Signon\<close> and the
  error table \<^verbatim>\<open>SignonErrors\<close>. The packet classes, the password encryptor, the
  \<^verbatim>\<open>System\<close> class and the \<^verbatim>\<open>Service\<close> base class live in other files; what the
  orchestrator uses of them is taken as a parameter below.
\<close>

subsection \<open>Data\<close>

text \<open>A Node \<^verbatim>\<open>Buffer\<close> is a list of bytes; \<^verbatim>\<open>data.length\<close> is its length.\<close>

type_synonym bytes = "8 word list"

text \<open>\<^verbatim>\<open>new Error(msg)\<close>: the only thing the orchestrator puts into an error is its message.\<close>

datatype error = Error string

text \<open>
  A promise as its caller sees it: resolved with a value, rejected with an error, or never
  settled (no \<^verbatim>\<open>data\<close> event arrives and nothing else in the file settles the promise).
\<close>

datatype 'a promise = Resolved 'a | Rejected error | Pending

text \<open>
  Modelled from the spec: the \<^verbatim>\<open>System\<close> class is not part of the file. The record has
  the properties the orchestrator reads (\<^verbatim>\<open>hostName\<close>, \<^verbatim>\<open>userId\<close>, \<^verbatim>\<open>password\<close>) and the
  fields of the session negotiation state that the data model attaches to the system:
  \<^verbatim>\<open>serverLevel\<close>, \<^verbatim>\<open>serverVersion\<close>, \<^verbatim>\<open>passwordLevel\<close>, \<^verbatim>\<open>clientSeed\<close>, \<^verbatim>\<open>serverSeed\<close> and
  the flag \<^verbatim>\<open>passwordAttributesSet\<close>. A property that has not been assigned is \<open>None\<close>.
\<close>

record system =
  hostName :: string
  userId :: string
  password :: string
  serverLevel :: "int option"
  serverVersion :: "int option"
  passwordLevel :: "int option"
  clientSeed :: "bytes option"
  serverSeed :: "bytes option"
  passwordAttributesSet :: bool

text \<open>
  The \<^verbatim>\<open>Signon\<close> instance (\<^verbatim>\<open>this\<close>): the system it was created for and the client seed
  that \<^verbatim>\<open>exchangeSeeds\<close> stores in \<^verbatim>\<open>this.seed\<close>.
\<close>

record signon_service =
  system :: system
  seed :: "bytes option"

text \<open>
  What the getters of \<^verbatim>\<open>SignonSeedExchangeResponse\<close> and \<^verbatim>\<open>SignonInfoResponse\<close> return for a
  reply. The types of the dates and of the warning are left open.
\<close>

record seed_exchange_response =
  seed_rc :: int
  resp_serverLevel :: int
  resp_serverVersion :: int
  resp_passwordLevel :: int
  resp_serverSeed :: bytes

record ('d, 'w) info_response =
  info_rc :: int
  resp_serverCCSID :: int
  resp_currentSignonDate :: 'd
  resp_lastSignonDate :: 'd
  resp_passwordExpirationDate :: 'd
  resp_expirationWarning :: 'w
  resp_userId :: string

text \<open>The object that \<^verbatim>\<open>handleInfoResponse\<close> resolves with.\<close>

record ('d, 'w) session_attributes =
  serverCCSID :: int
  currentSignonDate :: 'd
  lastSignonDate :: 'd
  passwordExpirationDate :: 'd
  expirationWarning :: 'w
  attr_userId :: string

text \<open>
  The collaborators whose code is in other files: the two response classes (a reply's
  bytes to the values of its getters) and
  \<^verbatim>\<open>new PasswordEncryptor(level).encrypt(userId, password, clientSeed, serverSeed)\<close>, which
  returns the encrypted password or throws.
\<close>

record ('d, 'w) collaborators =
  SignonSeedExchangeResponse :: "bytes \<Rightarrow> seed_exchange_response"
  SignonInfoResponse :: "bytes \<Rightarrow> ('d, 'w) info_response"
  encrypt :: "int option \<Rightarrow> string \<Rightarrow> string \<Rightarrow> bytes option \<Rightarrow> bytes \<Rightarrow> error + bytes"

subsection \<open>Numbers in messages\<close>

text \<open>
  \<^verbatim>\<open>'...' + resp.rc\<close> appends the decimal digits of the number, with a minus sign when it
  is negative. That is what the conversion does for the values a 32-bit field can hold,
  read signed or unsigned, and the properties below rely on it for those values only: a
  number of magnitude \<open>10\<^sup>2\<^sup>1\<close> or more is printed with an exponent.
\<close>

definition digit :: "nat \<Rightarrow> char" where
  "digit n = ''0123456789'' ! n"

function string_of_nat :: "nat \<Rightarrow> string" where
  "string_of_nat n = (if n < 10 then [digit n] else string_of_nat (n div 10) @ [digit (n mod 10)])"
  by pat_completeness auto
termination
  by (relation "measure id") auto

declare string_of_nat.simps [simp del]

definition number_toString :: "int \<Rightarrow> string" where
  "number_toString i = (if i < 0 then CHR ''-'' # string_of_nat (nat (- i)) else string_of_nat (nat i))"

text \<open>Reading a decimal numeral back, to state that the digits are those of the number.\<close>

definition digit_value :: "char \<Rightarrow> nat" where
  "digit_value c = of_char c - 48"

definition decimal_value :: "string \<Rightarrow> nat" where
  "decimal_value s = foldl (\<lambda>a c. 10 * a + digit_value c) 0 s"

text \<open>
  The decimal numeral of a number: digits only, no leading zero except for zero itself,
  and the number as its value.
\<close>

definition decimal_numeral :: "string \<Rightarrow> nat \<Rightarrow> bool" where
  "decimal_numeral s n =
     (s \<noteq> [] \<and> set s \<subseteq> set ''0123456789'' \<and> (hd s = CHR ''0'' \<longrightarrow> s = ''0'')
      \<and> decimal_value s = n)"

subsection \<open>SignonErrors\<close>

record signon_error =
  err_id :: int
  msg :: string

definition PASSWORD_LENGTH_NOT_VALID :: signon_error where
  "PASSWORD_LENGTH_NOT_VALID = \<lparr>err_id = 0x00010008, msg = ''Password length not valid''\<rparr>"

definition USERID_UNKNOWN :: signon_error where
  "USERID_UNKNOWN = \<lparr>err_id = 0x00020001, msg = ''Unknown user ID''\<rparr>"

definition USERID_DISABLED :: signon_error where
  "USERID_DISABLED = \<lparr>err_id = 0x00020002, msg = ''User ID is disabled''\<rparr>"

definition PASSWORD_INCORRECT :: signon_error where
  "PASSWORD_INCORRECT = \<lparr>err_id = 0x0003000B, msg = ''Incorrect password''\<rparr>"

definition PASSWORD_INCORRECT_DISABLE :: signon_error where
  "PASSWORD_INCORRECT_DISABLE = \<lparr>err_id = 0x0003000C,
     msg = ''Incorrect password, user ID will be disabled on the next incorrect password''\<rparr>"

text \<open>\<^verbatim>\<open>SignonErrors.get(id)\<close>: the switch, case by case, with the default message first.\<close>

definition SignonErrors_get :: "int \<Rightarrow> string" where
  "SignonErrors_get ident =
     (if ident = err_id PASSWORD_LENGTH_NOT_VALID then msg PASSWORD_LENGTH_NOT_VALID
      else if ident = err_id USERID_UNKNOWN then msg USERID_UNKNOWN
      else if ident = err_id USERID_DISABLED then msg USERID_DISABLED
      else if ident = err_id PASSWORD_INCORRECT then msg PASSWORD_INCORRECT
      else if ident = err_id PASSWORD_INCORRECT_DISABLE then msg PASSWORD_INCORRECT_DISABLE
      else ''Unknown error'')"

subsection \<open>The reply handlers\<close>

text \<open>
  \<^verbatim>\<open>handleSeedExchangeResponse(resolve, reject, data)\<close>: the promise of \<^verbatim>\<open>exchangeSeeds\<close>
  after the call, and \<^verbatim>\<open>this\<close> after the call.
\<close>

definition handleSeedExchangeResponse ::
  "('d, 'w) collaborators \<Rightarrow> signon_service \<Rightarrow> bytes \<Rightarrow> bytes promise \<times> signon_service" where
  "handleSeedExchangeResponse C this data =
     (if length data < 24 then
        (Rejected (Error (''Invalid seed exchange response received from '' @ hostName (system this))),
         this)
      else
        let resp = SignonSeedExchangeResponse C data in
        if seed_rc resp \<noteq> 0 then
          (Rejected (Error (''Error received during signon seed exchange with ''
                            @ hostName (system this) @ '' : '' @ number_toString (seed_rc resp))),
           this)
        else
          (Resolved (resp_serverSeed resp),
           this\<lparr>system := (system this)
             \<lparr>serverLevel := Some (resp_serverLevel resp),
              serverVersion := Some (resp_serverVersion resp),
              passwordLevel := Some (resp_passwordLevel resp),
              passwordAttributesSet := True\<rparr>\<rparr>))"

text \<open>
  \<^verbatim>\<open>handleInfoResponse(resolve, reject, data)\<close>: the promise of \<^verbatim>\<open>info\<close> after the call.
  The handler assigns nothing on \<^verbatim>\<open>this\<close>.
\<close>

definition handleInfoResponse ::
  "('d, 'w) collaborators \<Rightarrow> signon_service \<Rightarrow> bytes \<Rightarrow> ('d, 'w) session_attributes promise" where
  "handleInfoResponse C this data =
     (if length data < 24 then
        Rejected (Error (''Invalid info response received from '' @ hostName (system this)))
      else
        let resp = SignonInfoResponse C data in
        if info_rc resp \<noteq> 0 then
          Rejected (Error (''Error received during signon info with '' @ hostName (system this)
                           @ '' : '' @ SignonErrors_get (info_rc resp)))
        else
          Resolved \<lparr>serverCCSID = resp_serverCCSID resp,
                    currentSignonDate = resp_currentSignonDate resp,
                    lastSignonDate = resp_lastSignonDate resp,
                    passwordExpirationDate = resp_passwordExpirationDate resp,
                    expirationWarning = resp_expirationWarning resp,
                    attr_userId = resp_userId resp\<rparr>)"

subsection \<open>The orchestrator\<close>

text \<open>
  What the outside does in one run of \<^verbatim>\<open>signon\<close>: whether \<^verbatim>\<open>connect()\<close> rejects, the
  client seed that \<^verbatim>\<open>new SignonSeedExchangeRequest()\<close> carries, whether each
  \<^verbatim>\<open>sendPacket\<close> throws, and the chunk that the one-shot \<^verbatim>\<open>data\<close> listener of each phase
  receives (\<open>None\<close>: no chunk ever arrives).
\<close>

record world =
  connect :: "error option"
  requestSeed :: bytes
  sendSeedExchange :: "error option"
  seedExchangeReply :: "bytes option"
  sendInfo :: "error option"
  infoReply :: "bytes option"

text \<open>
  The calls a run makes on its collaborators, in order, each with \<^verbatim>\<open>this\<close> as it is at the
  moment of the call.
\<close>

datatype event =
    is_Connect: Connect
  | is_SendSeedExchangeRequest: SendSeedExchangeRequest bytes
  | is_Encrypt: Encrypt "int option" string string "bytes option" bytes
  | is_SendInfoRequest: SendInfoRequest string bytes "int option"

type_synonym log = "(event \<times> signon_service) list"

text \<open>
  \<^verbatim>\<open>exchangeSeeds()\<close>: store the request's client seed in \<^verbatim>\<open>this.seed\<close>, register the
  handler, send. A throw of \<^verbatim>\<open>sendPacket\<close> inside the executor rejects the promise.
\<close>

definition exchangeSeeds ::
  "('d, 'w) collaborators \<Rightarrow> world \<Rightarrow> signon_service \<Rightarrow> bytes promise \<times> signon_service \<times> log" where
  "exchangeSeeds C W this =
     (let this1 = this\<lparr>seed := Some (requestSeed W)\<rparr>;
          sent = [(SendSeedExchangeRequest (requestSeed W), this1)]
      in case sendSeedExchange W of
           Some e \<Rightarrow> (Rejected e, this1, sent)
         | None \<Rightarrow>
             (case seedExchangeReply W of
                None \<Rightarrow> (Pending, this1, sent)
              | Some data \<Rightarrow>
                  (let (p, this2) = handleSeedExchangeResponse C this1 data in (p, this2, sent))))"

text \<open>
  \<^verbatim>\<open>info(serverSeed)\<close>: encrypt the password, build the request, register the handler,
  send. A throw of the encryptor or of \<^verbatim>\<open>sendPacket\<close> rejects the promise.
\<close>

definition info ::
  "('d, 'w) collaborators \<Rightarrow> world \<Rightarrow> signon_service \<Rightarrow> bytes
     \<Rightarrow> ('d, 'w) session_attributes promise \<times> log" where
  "info C W this srvSeed =
     (let sys = system this;
          called = [(Encrypt (passwordLevel sys) (userId sys) (password sys) (seed this) srvSeed, this)]
      in case encrypt C (passwordLevel sys) (userId sys) (password sys) (seed this) srvSeed of
           Inl e \<Rightarrow> (Rejected e, called)
         | Inr encryptedPassword \<Rightarrow>
             (let sent = called @ [(SendInfoRequest (userId sys) encryptedPassword (serverLevel sys), this)]
              in case sendInfo W of
                   Some e \<Rightarrow> (Rejected e, sent)
                 | None \<Rightarrow>
                     (case infoReply W of
                        None \<Rightarrow> (Pending, sent)
                      | Some data \<Rightarrow> (handleInfoResponse C this data, sent))))"

text \<open>
  \<^verbatim>\<open>signon()\<close>: connect, exchange seeds, get the info; the \<^verbatim>\<open>catch\<close> logs and throws the
  error it caught. The result is the promise the caller holds, \<^verbatim>\<open>this\<close> at the end and
  the calls that were made.
\<close>

record ('d, 'w) run =
  outcome :: "('d, 'w) session_attributes promise"
  final :: signon_service
  calls :: log

definition signon :: "('d, 'w) collaborators \<Rightarrow> world \<Rightarrow> signon_service \<Rightarrow> ('d, 'w) run" where
  "signon C W this =
     (case connect W of
        Some e \<Rightarrow> \<lparr>outcome = Rejected e, final = this, calls = [(Connect, this)]\<rparr>
      | None \<Rightarrow>
          (case exchangeSeeds C W this of
             (Rejected e, this1, l1) \<Rightarrow>
               \<lparr>outcome = Rejected e, final = this1, calls = (Connect, this) # l1\<rparr>
           | (Pending, this1, l1) \<Rightarrow>
               \<lparr>outcome = Pending, final = this1, calls = (Connect, this) # l1\<rparr>
           | (Resolved srvSeed, this1, l1) \<Rightarrow>
               (let (res, l2) = info C W this1 srvSeed
                in \<lparr>outcome = res, final = this1, calls = (Connect, this) # l1 @ l2\<rparr>)))"

subsection \<open>A sample host\<close>

text \<open>
  Concrete collaborators, replies and a system on which the theorems below are
  instantiated: the status code is read big-endian from bytes 20 to 23 of a reply.
\<close>

definition get32Bit :: "bytes \<Rightarrow> nat \<Rightarrow> int" where
  "get32Bit data off =
     uint (data ! off) * 16777216 + uint (data ! (off + 1)) * 65536
       + uint (data ! (off + 2)) * 256 + uint (data ! (off + 3))"

definition sample_collaborators :: "(int, bool) collaborators" where
  "sample_collaborators =
     \<lparr>SignonSeedExchangeResponse = (\<lambda>data.
        \<lparr>seed_rc = get32Bit data 20, resp_serverLevel = 1, resp_serverVersion = 7,
         resp_passwordLevel = 0, resp_serverSeed = [9, 10, 11, 12, 13, 14, 15, 16]\<rparr>),
      SignonInfoResponse = (\<lambda>data.
        \<lparr>info_rc = get32Bit data 20, resp_serverCCSID = 37, resp_currentSignonDate = 3,
         resp_lastSignonDate = 2, resp_passwordExpirationDate = 9,
         resp_expirationWarning = False, resp_userId = ''ALICE''\<rparr>),
      encrypt = (\<lambda>level user pw cseed sseed. Inr (sseed @ [42]))\<rparr>"

definition reply_ok :: bytes where
  "reply_ok = replicate 24 0"

definition reply_short :: bytes where
  "reply_short = replicate 10 0"

definition reply_incorrect_password :: bytes where
  "reply_incorrect_password = replicate 20 0 @ [0x00, 0x03, 0x00, 0x0B]"

definition reply_unlisted :: bytes where
  "reply_unlisted = replicate 20 0 @ [0x00, 0x00, 0x00, 0x07]"

definition sample_system :: system where
  "sample_system =
     \<lparr>hostName = ''host1'', userId = ''alice'', password = ''secret'',
      serverLevel = None, serverVersion = None, passwordLevel = None,
      clientSeed = None, serverSeed = None, passwordAttributesSet = False\<rparr>"

definition sample_this :: signon_service where
  "sample_this = \<lparr>system = sample_system, seed = None\<rparr>"

definition sample_world :: world where
  "sample_world =
     \<lparr>connect = None, requestSeed = [1, 2, 3, 4, 5, 6, 7, 8], sendSeedExchange = None,
      seedExchangeReply = Some reply_ok, sendInfo = None, infoReply = Some reply_ok\<rparr>"

section \<open>Properties\<close>

lemmas handler_defs = handleSeedExchangeResponse_def handleInfoResponse_def

lemmas flow_defs = signon_def exchangeSeeds_def info_def

lemmas sample_defs = sample_collaborators_def sample_world_def sample_this_def sample_system_def
  reply_ok_def reply_short_def reply_incorrect_password_def reply_unlisted_def get32Bit_def
  nth_append

lemmas table_defs = SignonErrors_get_def PASSWORD_LENGTH_NOT_VALID_def USERID_UNKNOWN_def
  USERID_DISABLED_def PASSWORD_INCORRECT_def PASSWORD_INCORRECT_DISABLE_def

subsection \<open>The decimal digits of a status code\<close>

lemma digit_value_digit: "n < 10 \<Longrightarrow> digit_value (digit n) = n"
proof -
  assume "n < 10"
  then have "n \<in> {0, 1, 2, 3, 4, 5, 6, 7, 8, 9}" by auto
  then show ?thesis
    by (auto simp: digit_value_def digit_def)
qed

lemma decimal_value_string_of_nat: "decimal_value (string_of_nat n) = n"
proof (induction n rule: string_of_nat.induct)
  case (1 n)
  show ?case
  proof (cases "n < 10")
    case True
    then show ?thesis
      by (subst string_of_nat.simps) (simp add: decimal_value_def digit_value_digit)
  next
    case False
    with 1 have "decimal_value (string_of_nat (n div 10)) = n div 10" by simp
    with False show ?thesis
      by (subst string_of_nat.simps) (simp add: decimal_value_def digit_value_digit)
  qed
qed

lemma number_toString_nonneg: "0 \<le> i \<Longrightarrow> decimal_value (number_toString i) = nat i"
  by (simp add: number_toString_def decimal_value_string_of_nat)

lemma digit_in_digits: "n < 10 \<Longrightarrow> digit n \<in> set ''0123456789''"
proof -
  assume "n < 10"
  then have "n \<in> {0, 1, 2, 3, 4, 5, 6, 7, 8, 9}" by auto
  then show ?thesis
    by (auto simp: digit_def)
qed

lemma digit_zero: "n < 10 \<Longrightarrow> digit n = CHR ''0'' \<Longrightarrow> n = 0"
proof -
  assume "n < 10" and z: "digit n = CHR ''0''"
  then have "n \<in> {0, 1, 2, 3, 4, 5, 6, 7, 8, 9}" by auto
  with z show ?thesis
    by (auto simp: digit_def)
qed

lemma string_of_nat_nonempty: "string_of_nat n \<noteq> []"
  by (subst string_of_nat.simps) simp

lemma string_of_nat_digits: "set (string_of_nat n) \<subseteq> set ''0123456789''"
proof (induction n rule: string_of_nat.induct)
  case (1 n)
  show ?case
  proof (cases "n < 10")
    case True
    then show ?thesis
      using digit_in_digits[of n] by (subst string_of_nat.simps) simp
  next
    case False
    with 1 have "set (string_of_nat (n div 10)) \<subseteq> set ''0123456789''" by simp
    moreover have "digit (n mod 10) \<in> set ''0123456789''"
      by (rule digit_in_digits) simp
    ultimately show ?thesis
      using False by (subst string_of_nat.simps) simp
  qed
qed

lemma string_of_nat_leading: "hd (string_of_nat n) = CHR ''0'' \<Longrightarrow> n = 0"
proof (induction n rule: string_of_nat.induct)
  case (1 n)
  show ?case
  proof (cases "n < 10")
    case True
    with "1.prems" have "digit n = CHR ''0''"
      by (subst (asm) string_of_nat.simps) simp
    with True show ?thesis by (rule digit_zero)
  next
    case False
    with "1.prems" have "hd (string_of_nat (n div 10)) = CHR ''0''"
      by (subst (asm) string_of_nat.simps) (simp add: string_of_nat_nonempty)
    with 1 False have "n div 10 = 0" by simp
    with False show ?thesis by simp
  qed
qed

lemma string_of_nat_zero: "string_of_nat 0 = ''0''"
  by (subst string_of_nat.simps) (simp add: digit_def)

lemma decimal_numeral_string_of_nat: "decimal_numeral (string_of_nat n) n"
  unfolding decimal_numeral_def
  using string_of_nat_nonempty[of n] string_of_nat_digits[of n] string_of_nat_leading[of n]
    decimal_value_string_of_nat[of n] string_of_nat_zero
  by blast

lemma digit_of_digit_value:
  "c \<in> set ''0123456789'' \<Longrightarrow> digit_value c < 10 \<and> digit (digit_value c) = c"
  by (auto simp: digit_value_def digit_def)

lemma decimal_value_snoc: "decimal_value (xs @ [c]) = 10 * decimal_value xs + digit_value c"
  by (simp add: decimal_value_def)

lemma string_of_nat_decimal_value:
  assumes "s \<noteq> []"
  shows "set s \<subseteq> set ''0123456789'' \<Longrightarrow> (hd s = CHR ''0'' \<longrightarrow> s = ''0'')
           \<Longrightarrow> string_of_nat (decimal_value s) = s"
  using assms
proof (induction s rule: rev_nonempty_induct)
  case (single c)
  then have c: "digit_value c < 10" "digit (digit_value c) = c"
    using digit_of_digit_value[of c] by simp_all
  have "decimal_value [c] = digit_value c"
    by (simp add: decimal_value_def)
  with c show ?case
    by (subst string_of_nat.simps) simp
next
  case (snoc c xs)
  from snoc.prems have c: "digit_value c < 10" "digit (digit_value c) = c"
    using digit_of_digit_value[of c] by simp_all
  from snoc.hyps(1) snoc.prems(2) have lead: "hd xs \<noteq> CHR ''0''"
    by (cases xs) auto
  from snoc.prems(1) have "set xs \<subseteq> set ''0123456789''" by simp
  with snoc.IH lead have canon: "string_of_nat (decimal_value xs) = xs" by simp
  have pos: "decimal_value xs \<noteq> 0"
  proof
    assume "decimal_value xs = 0"
    with canon have "xs = string_of_nat 0" by simp
    then have "xs = ''0''" by (simp add: string_of_nat_zero)
    with lead show False by simp
  qed
  let ?n = "10 * decimal_value xs + digit_value c"
  from pos have big: "\<not> ?n < 10" by simp
  from c have dm: "?n div 10 = decimal_value xs" "?n mod 10 = digit_value c" by simp_all
  have "string_of_nat ?n = string_of_nat (?n div 10) @ [digit (?n mod 10)]"
    using big by (subst string_of_nat.simps) simp
  with dm canon c show ?case
    by (simp add: decimal_value_snoc)
qed

lemma decimal_numeral_unique:
  "decimal_numeral s n \<Longrightarrow> decimal_numeral t n \<Longrightarrow> s = t"
  using string_of_nat_decimal_value[of s] string_of_nat_decimal_value[of t]
  unfolding decimal_numeral_def by metis

subsection \<open>Replies shorter than 24 bytes\<close>

text \<open>
  Claim C3. A reply shorter than 24 bytes makes either handler reject with an error whose
  message ends in the host name; the state is returned as it was; and the result is the
  same whatever the response classes would read from the reply, since they are never
  applied to it. In the phase that receives such a reply, that error is the failure of
  \<^verbatim>\<open>signon\<close>.
\<close>

theorem short_reply_is_framing_error:
  assumes "length data < 24"
  shows "handleSeedExchangeResponse C this data =
           (Rejected (Error (''Invalid seed exchange response received from '' @ hostName (system this))),
            this)
       \<and> handleInfoResponse C this data =
           Rejected (Error (''Invalid info response received from '' @ hostName (system this)))
       \<and> handleSeedExchangeResponse C' this data = handleSeedExchangeResponse C this data
       \<and> handleInfoResponse C' this data = handleInfoResponse C this data
       \<and> (connect W = None \<and> sendSeedExchange W = None \<and> seedExchangeReply W = Some data
            \<longrightarrow> outcome (signon C W this) =
                  Rejected (Error (''Invalid seed exchange response received from ''
                                   @ hostName (system this))))
       \<and> (connect W = None \<and> sendSeedExchange W = None
            \<and> seedExchangeReply W = Some sdata \<and> 24 \<le> length sdata
            \<and> seed_rc (SignonSeedExchangeResponse C sdata) = 0
            \<and> encrypt C (Some (resp_passwordLevel (SignonSeedExchangeResponse C sdata)))
                 (userId (system this)) (password (system this)) (Some (requestSeed W))
                 (resp_serverSeed (SignonSeedExchangeResponse C sdata)) = Inr blob
            \<and> sendInfo W = None \<and> infoReply W = Some data
            \<longrightarrow> outcome (signon C W this) =
                  Rejected (Error (''Invalid info response received from '' @ hostName (system this))))"
  using assms by (simp add: handler_defs flow_defs Let_def)

theorem short_reply_is_framing_error_witness:
  "length reply_short < 24
   \<and> outcome (signon sample_collaborators (sample_world\<lparr>seedExchangeReply := Some reply_short\<rparr>)
        sample_this) =
       Rejected (Error ''Invalid seed exchange response received from host1'')
   \<and> outcome (signon sample_collaborators (sample_world\<lparr>infoReply := Some reply_short\<rparr>)
        sample_this) =
       Rejected (Error ''Invalid info response received from host1'')"
proof -
  have short: "length reply_short < 24"
    by (simp add: reply_short_def)
  note phase1 = short_reply_is_framing_error
    [OF short, where C = sample_collaborators and C' = sample_collaborators and this = sample_this
       and W = "sample_world\<lparr>seedExchangeReply := Some reply_short\<rparr>"
       and sdata = reply_ok and blob = "[9, 10, 11, 12, 13, 14, 15, 16, 42]"]
  note phase2 = short_reply_is_framing_error
    [OF short, where C = sample_collaborators and C' = sample_collaborators and this = sample_this
       and W = "sample_world\<lparr>infoReply := Some reply_short\<rparr>"
       and sdata = reply_ok and blob = "[9, 10, 11, 12, 13, 14, 15, 16, 42]"]
  show ?thesis
    using short phase1 phase2 by (simp add: sample_defs)
qed

subsection \<open>The seed exchange reply\<close>

text \<open>
  Claim C10. A seed exchange reply that fails (shorter than 24 bytes, or with a status
  code other than 0) leaves \<^verbatim>\<open>this\<close>, and so every field of the system, as it was; at
  the end of the run of \<^verbatim>\<open>signon\<close> that received it the system is the one the run
  started with.
\<close>

theorem seed_exchange_failure_keeps_negotiation_state:
  assumes "seedExchangeReply W = Some data"
    and "length data < 24 \<or> seed_rc (SignonSeedExchangeResponse C data) \<noteq> 0"
  shows "snd (handleSeedExchangeResponse C this data) = this
       \<and> system (final (signon C W this)) = system this"
  using assms
  by (auto simp: handler_defs flow_defs Let_def split: option.splits)

theorem seed_exchange_failure_keeps_negotiation_state_witness:
  "length reply_short < 24
   \<and> snd (handleSeedExchangeResponse sample_collaborators sample_this reply_short) = sample_this
   \<and> seed_rc (SignonSeedExchangeResponse sample_collaborators reply_incorrect_password) = 196619
   \<and> snd (handleSeedExchangeResponse sample_collaborators sample_this reply_incorrect_password)
       = sample_this
   \<and> system (final (signon sample_collaborators
         (sample_world\<lparr>seedExchangeReply := Some reply_incorrect_password\<rparr>) sample_this))
       = sample_system"
  using seed_exchange_failure_keeps_negotiation_state
    [where W = "sample_world\<lparr>seedExchangeReply := Some reply_short\<rparr>" and data = reply_short
       and C = sample_collaborators and this = sample_this]
    seed_exchange_failure_keeps_negotiation_state
    [where W = "sample_world\<lparr>seedExchangeReply := Some reply_incorrect_password\<rparr>"
       and data = reply_incorrect_password and C = sample_collaborators and this = sample_this]
  by (simp add: sample_defs)

text \<open>
  Claim C6. A seed exchange reply of at least 24 bytes with a status code other than 0
  is rejected with the message
  \<^verbatim>\<open>Error received during signon seed exchange with <host> : <code>\<close>; with the
  connection made and the request sent, that is the failure of \<^verbatim>\<open>signon\<close>. The code
  in the message is the decimal numeral of the status code of the reply, after a minus
  sign when the code is negative. The status code is the value of a 32-bit field.
\<close>

theorem seed_exchange_status_error_message:
  assumes "connect W = None" and "sendSeedExchange W = None"
    and "seedExchangeReply W = Some data"
    and "24 \<le> length data" and "seed_rc (SignonSeedExchangeResponse C data) = code"
    and "code \<noteq> 0" and "- (2 ^ 31) \<le> code" and "code < 2 ^ 32"
  shows "fst (handleSeedExchangeResponse C this data) =
           Rejected (Error (''Error received during signon seed exchange with ''
              @ hostName (system this) @ '' : '' @ number_toString code))
       \<and> outcome (signon C W this) =
           Rejected (Error (''Error received during signon seed exchange with ''
              @ hostName (system this) @ '' : '' @ number_toString code))
       \<and> (\<exists>digits. decimal_numeral digits (nat \<bar>code\<bar>)
            \<and> number_toString code = (if code < 0 then ''-'' else []) @ digits)"
proof -
  have msg: "fst (handleSeedExchangeResponse C this data) =
           Rejected (Error (''Error received during signon seed exchange with ''
              @ hostName (system this) @ '' : '' @ number_toString code))"
    using assms by (simp add: handleSeedExchangeResponse_def Let_def)
  have run: "outcome (signon C W this) =
           Rejected (Error (''Error received during signon seed exchange with ''
              @ hostName (system this) @ '' : '' @ number_toString code))"
    using assms by (simp add: handler_defs flow_defs Let_def)
  have "decimal_numeral (string_of_nat (nat \<bar>code\<bar>)) (nat \<bar>code\<bar>)"
    by (rule decimal_numeral_string_of_nat)
  moreover have "number_toString code = (if code < 0 then ''-'' else []) @ string_of_nat (nat \<bar>code\<bar>)"
    by (simp add: number_toString_def)
  ultimately have digits: "\<exists>digits. decimal_numeral digits (nat \<bar>code\<bar>)
            \<and> number_toString code = (if code < 0 then ''-'' else []) @ digits"
    by blast
  from msg run digits show ?thesis by blast
qed

theorem seed_exchange_status_error_message_witness:
  "24 \<le> length reply_incorrect_password
   \<and> seed_rc (SignonSeedExchangeResponse sample_collaborators reply_incorrect_password) = 0x0003000B
   \<and> - (2 ^ 31) \<le> (0x0003000B :: int) \<and> (0x0003000B :: int) < 2 ^ 32
   \<and> outcome (signon sample_collaborators
        (sample_world\<lparr>seedExchangeReply := Some reply_incorrect_password\<rparr>) sample_this) =
       Rejected (Error ''Error received during signon seed exchange with host1 : 196619'')"
  using seed_exchange_status_error_message
    [where W = "sample_world\<lparr>seedExchangeReply := Some reply_incorrect_password\<rparr>"
       and data = reply_incorrect_password and C = sample_collaborators and this = sample_this
       and code = "0x0003000B"]
  by (simp add: sample_defs number_toString_def string_of_nat.simps digit_def)

text \<open>
  The data model of the specification lists \<^verbatim>\<open>serverSeed\<close> among the fields of the
  negotiation state. The handler does not assign it: on a reply of 24 zero bytes from the
  sample host it resolves with the server seed, and the \<^verbatim>\<open>serverSeed\<close> of the system
  is still unassigned.
\<close>

theorem seed_exchange_ok_serverSeed_not_stored:
  "fst (handleSeedExchangeResponse sample_collaborators sample_this reply_ok) =
     Resolved [9, 10, 11, 12, 13, 14, 15, 16]
   \<and> serverSeed (system (snd (handleSeedExchangeResponse sample_collaborators sample_this reply_ok)))
       = None"
  by (simp add: handler_defs Let_def sample_defs)

text \<open>
  Claim C2, as amended. A seed exchange reply of at least 24 bytes with status code 0
  makes the handler assign \<^verbatim>\<open>serverLevel\<close>, \<^verbatim>\<open>serverVersion\<close> and \<^verbatim>\<open>passwordLevel\<close> of
  the system from the reply and set \<^verbatim>\<open>passwordAttributesSet\<close>; everything else on
  \<^verbatim>\<open>this\<close> stays as it was, the \<^verbatim>\<open>serverSeed\<close> of the system included: the server seed
  is the value the promise resolves with. The handler's result holds a seed and
  \<^verbatim>\<open>this\<close>, no session attributes.
\<close>

theorem seed_exchange_ok_updates_negotiation_state:
  assumes "24 \<le> length data" and "seed_rc (SignonSeedExchangeResponse C data) = 0"
  shows "handleSeedExchangeResponse C this data =
           (Resolved (resp_serverSeed (SignonSeedExchangeResponse C data)),
            this\<lparr>system := (system this)
              \<lparr>serverLevel := Some (resp_serverLevel (SignonSeedExchangeResponse C data)),
               serverVersion := Some (resp_serverVersion (SignonSeedExchangeResponse C data)),
               passwordLevel := Some (resp_passwordLevel (SignonSeedExchangeResponse C data)),
               passwordAttributesSet := True\<rparr>\<rparr>)
       \<and> serverSeed (system (snd (handleSeedExchangeResponse C this data)))
           = serverSeed (system this)"
  using assms by (simp add: handler_defs Let_def)

theorem seed_exchange_ok_updates_negotiation_state_witness:
  "24 \<le> length reply_ok
   \<and> seed_rc (SignonSeedExchangeResponse sample_collaborators reply_ok) = 0
   \<and> handleSeedExchangeResponse sample_collaborators sample_this reply_ok =
       (Resolved [9, 10, 11, 12, 13, 14, 15, 16],
        \<lparr>system = sample_system\<lparr>serverLevel := Some 1, serverVersion := Some 7,
                     passwordLevel := Some 0, passwordAttributesSet := True\<rparr>,
         seed = None\<rparr>)"
  using seed_exchange_ok_updates_negotiation_state
    [where data = reply_ok and C = sample_collaborators and this = sample_this]
  by (simp add: sample_defs)

text \<open>
  Claim C4. When the seed exchange reply carries a status code other than 0, \<^verbatim>\<open>signon\<close>
  is rejected, and the run has called neither the encryptor nor \<^verbatim>\<open>sendPacket\<close> for an
  info request.
\<close>

theorem seed_exchange_rejection_precedes_credentials:
  assumes "seedExchangeReply W = Some data"
    and "seed_rc (SignonSeedExchangeResponse C data) \<noteq> 0"
  shows "(\<exists>e. outcome (signon C W this) = Rejected e)
       \<and> filter (is_Encrypt \<circ> fst) (calls (signon C W this)) = []
       \<and> filter (is_SendInfoRequest \<circ> fst) (calls (signon C W this)) = []"
  using assms
  by (auto simp: handler_defs flow_defs Let_def split: option.splits)

theorem seed_exchange_rejection_precedes_credentials_witness:
  "seed_rc (SignonSeedExchangeResponse sample_collaborators reply_incorrect_password) = 196619
   \<and> map fst (calls (signon sample_collaborators
        (sample_world\<lparr>seedExchangeReply := Some reply_incorrect_password\<rparr>) sample_this))
       = [Connect, SendSeedExchangeRequest [1, 2, 3, 4, 5, 6, 7, 8]]
   \<and> filter (is_Encrypt \<circ> fst) (calls (signon sample_collaborators
        (sample_world\<lparr>seedExchangeReply := Some reply_incorrect_password\<rparr>) sample_this)) = []"
  using seed_exchange_rejection_precedes_credentials
    [where W = "sample_world\<lparr>seedExchangeReply := Some reply_incorrect_password\<rparr>"
       and data = reply_incorrect_password and C = sample_collaborators and this = sample_this]
  by (simp add: sample_defs handler_defs flow_defs Let_def)

subsection \<open>The order of the two phases\<close>

text \<open>
  Claim C7. In every run of \<^verbatim>\<open>signon\<close>, at each call of the encryptor the flag
  \<^verbatim>\<open>passwordAttributesSet\<close> of the system is true, and \<^verbatim>\<open>this\<close> is then exactly what
  the handler of the seed exchange reply returned.
\<close>

theorem encrypt_only_after_passwordAttributesSet:
  "\<forall>(ev, this') \<in> set (calls (signon C W this)).
     is_Encrypt ev \<longrightarrow>
       passwordAttributesSet (system this')
       \<and> (\<exists>data. seedExchangeReply W = Some data
            \<and> this' = snd (handleSeedExchangeResponse C (this\<lparr>seed := Some (requestSeed W)\<rparr>) data))"
  by (auto simp: handler_defs flow_defs Let_def split: option.splits sum.splits if_splits)

theorem encrypt_only_after_passwordAttributesSet_witness:
  "\<not> passwordAttributesSet (system sample_this)
   \<and> map (passwordAttributesSet \<circ> system \<circ> snd)
        (filter (is_Encrypt \<circ> fst) (calls (signon sample_collaborators sample_world sample_this)))
       = [True]"
  using encrypt_only_after_passwordAttributesSet
    [where C = sample_collaborators and W = sample_world and this = sample_this]
  by (simp add: sample_defs handler_defs flow_defs Let_def)

text \<open>
  Claim C8. When phase 2 runs, that is when the connection is made, the seed exchange
  request is sent and its reply has at least 24 bytes and status code 0, the calls of the
  run are: connect; send the seed exchange request with the client seed; the encryptor,
  with the password level of that reply, the user id and password of the system, the
  client seed stored in \<^verbatim>\<open>this.seed\<close> when the request was built, and the server seed
  of that reply; and, when the encryptor returns, the info request carrying what it
  returned.
\<close>

theorem encryptor_arguments:
  assumes "connect W = None" and "sendSeedExchange W = None"
    and "seedExchangeReply W = Some data" and "24 \<le> length data"
    and "seed_rc (SignonSeedExchangeResponse C data) = 0"
  shows "map fst (calls (signon C W this)) =
           [Connect, SendSeedExchangeRequest (requestSeed W),
            Encrypt (Some (resp_passwordLevel (SignonSeedExchangeResponse C data)))
              (userId (system this)) (password (system this)) (Some (requestSeed W))
              (resp_serverSeed (SignonSeedExchangeResponse C data))]
           @ (case encrypt C (Some (resp_passwordLevel (SignonSeedExchangeResponse C data)))
                     (userId (system this)) (password (system this)) (Some (requestSeed W))
                     (resp_serverSeed (SignonSeedExchangeResponse C data)) of
                Inl e \<Rightarrow> []
              | Inr blob \<Rightarrow>
                  [SendInfoRequest (userId (system this)) blob
                     (Some (resp_serverLevel (SignonSeedExchangeResponse C data)))])"
  using assms
  by (simp add: handler_defs flow_defs Let_def split: option.splits sum.splits)

theorem encryptor_arguments_witness:
  "connect sample_world = None \<and> sendSeedExchange sample_world = None
   \<and> seedExchangeReply sample_world = Some reply_ok \<and> 24 \<le> length reply_ok
   \<and> seed_rc (SignonSeedExchangeResponse sample_collaborators reply_ok) = 0
   \<and> map fst (calls (signon sample_collaborators sample_world sample_this)) =
       [Connect, SendSeedExchangeRequest [1, 2, 3, 4, 5, 6, 7, 8],
        Encrypt (Some 0) ''alice'' ''secret'' (Some [1, 2, 3, 4, 5, 6, 7, 8])
          [9, 10, 11, 12, 13, 14, 15, 16],
        SendInfoRequest ''alice'' [9, 10, 11, 12, 13, 14, 15, 16, 42] (Some 1)]"
  using encryptor_arguments
    [where W = sample_world and data = reply_ok and C = sample_collaborators and this = sample_this]
  by (simp add: sample_defs)

subsection \<open>The info reply\<close>

text \<open>
  Claim C1. When phase 2 has sent its request and the info reply has at least 24 bytes and
  status code 0, \<^verbatim>\<open>signon\<close> resolves with the object of exactly six fields read from
  the reply; its user id is the one in the reply, whatever the user id of the system that
  was sent in the request, and whatever \<^verbatim>\<open>this\<close> the handler runs on.
\<close>

theorem info_reply_ok_resolves_session_attributes:
  assumes "connect W = None" and "sendSeedExchange W = None"
    and "seedExchangeReply W = Some sdata" and "24 \<le> length sdata"
    and "seed_rc (SignonSeedExchangeResponse C sdata) = 0"
    and "encrypt C (Some (resp_passwordLevel (SignonSeedExchangeResponse C sdata)))
           (userId (system this)) (password (system this)) (Some (requestSeed W))
           (resp_serverSeed (SignonSeedExchangeResponse C sdata)) = Inr blob"
    and "sendInfo W = None"
    and "infoReply W = Some idata" and "24 \<le> length idata"
    and "info_rc (SignonInfoResponse C idata) = 0"
  shows "outcome (signon C W this) =
           Resolved \<lparr>serverCCSID = resp_serverCCSID (SignonInfoResponse C idata),
                     currentSignonDate = resp_currentSignonDate (SignonInfoResponse C idata),
                     lastSignonDate = resp_lastSignonDate (SignonInfoResponse C idata),
                     passwordExpirationDate = resp_passwordExpirationDate (SignonInfoResponse C idata),
                     expirationWarning = resp_expirationWarning (SignonInfoResponse C idata),
                     attr_userId = resp_userId (SignonInfoResponse C idata)\<rparr>
       \<and> handleInfoResponse C any idata = outcome (signon C W this)"
  using assms
  by (simp add: handler_defs flow_defs Let_def)

theorem info_reply_ok_resolves_session_attributes_witness:
  "24 \<le> length reply_ok
   \<and> info_rc (SignonInfoResponse sample_collaborators reply_ok) = 0
   \<and> userId (system sample_this) = ''alice''
   \<and> outcome (signon sample_collaborators sample_world sample_this) =
       Resolved \<lparr>serverCCSID = 37, currentSignonDate = 3, lastSignonDate = 2,
                 passwordExpirationDate = 9, expirationWarning = False,
                 attr_userId = ''ALICE''\<rparr>"
  using info_reply_ok_resolves_session_attributes
    [where W = sample_world and sdata = reply_ok and idata = reply_ok and C = sample_collaborators
       and this = sample_this and blob = "[9, 10, 11, 12, 13, 14, 15, 16, 42]"]
  by (simp add: sample_defs)

text \<open>
  Claim C5. When the info reply has at least 24 bytes and a status code other than 0,
  \<^verbatim>\<open>signon\<close> is rejected with
  \<^verbatim>\<open>Error received during signon info with <host> : <message>\<close>, the message being
  \<^verbatim>\<open>SignonErrors.get\<close> of the code. Each of the five listed codes has its own message
  (\<^verbatim>\<open>0x0003000B\<close>: \<^verbatim>\<open>Incorrect password\<close>), every other code has \<^verbatim>\<open>Unknown error\<close>,
  and the lookup is a total function.
\<close>

theorem info_status_maps_through_SignonErrors:
  assumes "connect W = None" and "sendSeedExchange W = None"
    and "seedExchangeReply W = Some sdata" and "24 \<le> length sdata"
    and "seed_rc (SignonSeedExchangeResponse C sdata) = 0"
    and "encrypt C (Some (resp_passwordLevel (SignonSeedExchangeResponse C sdata)))
           (userId (system this)) (password (system this)) (Some (requestSeed W))
           (resp_serverSeed (SignonSeedExchangeResponse C sdata)) = Inr blob"
    and "sendInfo W = None"
    and "infoReply W = Some data"
    and "24 \<le> length data" and "info_rc (SignonInfoResponse C data) = code" and "code \<noteq> 0"
  shows "outcome (signon C W this) =
           Rejected (Error (''Error received during signon info with '' @ hostName (system this)
                            @ '' : '' @ SignonErrors_get code))
       \<and> handleInfoResponse C this data = outcome (signon C W this)
       \<and> SignonErrors_get 0x00010008 = ''Password length not valid''
       \<and> SignonErrors_get 0x00020001 = ''Unknown user ID''
       \<and> SignonErrors_get 0x00020002 = ''User ID is disabled''
       \<and> SignonErrors_get 0x0003000B = ''Incorrect password''
       \<and> SignonErrors_get 0x0003000C =
            ''Incorrect password, user ID will be disabled on the next incorrect password''
       \<and> (code \<notin> {0x00010008, 0x00020001, 0x00020002, 0x0003000B, 0x0003000C}
            \<longrightarrow> SignonErrors_get code = ''Unknown error'')
       \<and> (\<exists>m. outcome (signon C W this) = Rejected (Error m)
              \<and> sublist (SignonErrors_get code) m)"
proof -
  have table: "SignonErrors_get 0x00010008 = ''Password length not valid''"
    "SignonErrors_get 0x00020001 = ''Unknown user ID''"
    "SignonErrors_get 0x00020002 = ''User ID is disabled''"
    "SignonErrors_get 0x0003000B = ''Incorrect password''"
    "SignonErrors_get 0x0003000C =
       ''Incorrect password, user ID will be disabled on the next incorrect password''"
    by (simp_all add: table_defs)
  have other: "SignonErrors_get code = ''Unknown error''"
    if "code \<notin> {0x00010008, 0x00020001, 0x00020002, 0x0003000B, 0x0003000C}"
    using that by (simp add: table_defs)
  have rej: "handleInfoResponse C this data =
           Rejected (Error (''Error received during signon info with '' @ hostName (system this)
                            @ '' : '' @ SignonErrors_get code))"
    using assms by (simp add: handleInfoResponse_def Let_def)
  have "sublist (SignonErrors_get code)
          ((''Error received during signon info with '' @ hostName (system this) @ '' : '')
             @ SignonErrors_get code @ [])"
    by (rule sublist_appendI)
  then have sub: "sublist (SignonErrors_get code)
          (''Error received during signon info with '' @ hostName (system this) @ '' : ''
             @ SignonErrors_get code)"
    by simp
  have run: "outcome (signon C W this) = handleInfoResponse C this data"
    using assms by (simp add: handler_defs flow_defs Let_def)
  from run rej sub have ex: "\<exists>m. outcome (signon C W this) = Rejected (Error m)
              \<and> sublist (SignonErrors_get code) m"
    by simp
  from run rej table other ex show ?thesis by simp
qed

theorem info_status_maps_through_SignonErrors_witness:
  "24 \<le> length reply_incorrect_password
   \<and> info_rc (SignonInfoResponse sample_collaborators reply_incorrect_password) = 0x0003000B
   \<and> outcome (signon sample_collaborators
        (sample_world\<lparr>infoReply := Some reply_incorrect_password\<rparr>) sample_this) =
       Rejected (Error ''Error received during signon info with host1 : Incorrect password'')
   \<and> info_rc (SignonInfoResponse sample_collaborators reply_unlisted) = 7
   \<and> outcome (signon sample_collaborators
        (sample_world\<lparr>infoReply := Some reply_unlisted\<rparr>) sample_this) =
       Rejected (Error ''Error received during signon info with host1 : Unknown error'')"
  using info_status_maps_through_SignonErrors
    [where W = "sample_world\<lparr>infoReply := Some reply_incorrect_password\<rparr>"
       and sdata = reply_ok and blob = "[9, 10, 11, 12, 13, 14, 15, 16, 42]"
       and data = reply_incorrect_password and C = sample_collaborators and this = sample_this
       and code = "0x0003000B"]
    info_status_maps_through_SignonErrors
    [where W = "sample_world\<lparr>infoReply := Some reply_unlisted\<rparr>"
       and sdata = reply_ok and blob = "[9, 10, 11, 12, 13, 14, 15, 16, 42]"
       and data = reply_unlisted and C = sample_collaborators and this = sample_this
       and code = 7]
  by (simp add: sample_defs table_defs)

subsection \<open>The outcome of a run\<close>

text \<open>
  The promise of \<^verbatim>\<open>signon\<close> is settled by the reply handlers only. When the host sends
  nothing after the seed exchange request, the run of the sample system has neither
  resolved nor failed.
\<close>

theorem signon_pending_without_reply:
  "outcome (signon sample_collaborators (sample_world\<lparr>seedExchangeReply := None\<rparr>) sample_this)
     = Pending"
  by (simp add: flow_defs sample_defs Let_def)

lemma handleSeedExchangeResponse_settles: "fst (handleSeedExchangeResponse C this data) \<noteq> Pending"
  by (simp add: handleSeedExchangeResponse_def Let_def)

lemma handleInfoResponse_settles: "handleInfoResponse C this data \<noteq> Pending"
  by (simp add: handleInfoResponse_def Let_def)

lemma signon_settles:
  assumes "seedExchangeReply W = Some sdata" and "infoReply W = Some idata"
  shows "outcome (signon C W this) \<noteq> Pending"
proof (cases "connect W")
  case (Some e)
  then show ?thesis by (simp add: signon_def)
next
  case None
  obtain p after where h: "handleSeedExchangeResponse C (this\<lparr>seed := Some (requestSeed W)\<rparr>) sdata = (p, after)"
    by (cases "handleSeedExchangeResponse C (this\<lparr>seed := Some (requestSeed W)\<rparr>) sdata")
  with handleSeedExchangeResponse_settles[of C "this\<lparr>seed := Some (requestSeed W)\<rparr>" sdata]
  have p: "p \<noteq> Pending" by simp
  show ?thesis
    using None assms h p handleInfoResponse_settles[of C after idata]
    by (cases p) (auto simp: flow_defs Let_def split: option.splits sum.splits)
qed

lemma signon_calls_once:
  "length (filter (is_Connect \<circ> fst) (calls (signon C W this))) = 1"
  "length (filter (is_SendSeedExchangeRequest \<circ> fst) (calls (signon C W this))) \<le> 1"
  "length (filter (is_Encrypt \<circ> fst) (calls (signon C W this))) \<le> 1"
  "length (filter (is_SendInfoRequest \<circ> fst) (calls (signon C W this))) \<le> 1"
  by (auto simp: flow_defs Let_def split: option.splits sum.splits prod.splits promise.splits)

lemma signon_connect_throws:
  "connect W = Some e \<Longrightarrow> outcome (signon C W this) = Rejected e"
  by (simp add: signon_def)

lemma signon_sendSeedExchange_throws:
  "connect W = None \<Longrightarrow> sendSeedExchange W = Some e \<Longrightarrow> outcome (signon C W this) = Rejected e"
  by (simp add: flow_defs Let_def)

lemma signon_encrypt_throws:
  assumes "connect W = None" and "sendSeedExchange W = None"
    and "seedExchangeReply W = Some sdata" and "24 \<le> length sdata"
    and "seed_rc (SignonSeedExchangeResponse C sdata) = 0"
    and "encrypt C (Some (resp_passwordLevel (SignonSeedExchangeResponse C sdata)))
           (userId (system this)) (password (system this)) (Some (requestSeed W))
           (resp_serverSeed (SignonSeedExchangeResponse C sdata)) = Inl e"
  shows "outcome (signon C W this) = Rejected e"
  using assms by (simp add: handler_defs flow_defs Let_def)

lemma signon_sendInfo_throws:
  assumes "connect W = None" and "sendSeedExchange W = None"
    and "seedExchangeReply W = Some sdata" and "24 \<le> length sdata"
    and "seed_rc (SignonSeedExchangeResponse C sdata) = 0"
    and "encrypt C (Some (resp_passwordLevel (SignonSeedExchangeResponse C sdata)))
           (userId (system this)) (password (system this)) (Some (requestSeed W))
           (resp_serverSeed (SignonSeedExchangeResponse C sdata)) = Inr blob"
    and "sendInfo W = Some e"
  shows "outcome (signon C W this) = Rejected e"
  using assms by (simp add: handler_defs flow_defs Let_def)

lemma signon_pending_iff:
  "outcome (signon C W this) = Pending \<longleftrightarrow>
     connect W = None \<and> sendSeedExchange W = None
     \<and> (seedExchangeReply W = None
        \<or> (\<exists>sdata blob. seedExchangeReply W = Some sdata \<and> 24 \<le> length sdata
              \<and> seed_rc (SignonSeedExchangeResponse C sdata) = 0
              \<and> encrypt C (Some (resp_passwordLevel (SignonSeedExchangeResponse C sdata)))
                   (userId (system this)) (password (system this)) (Some (requestSeed W))
                   (resp_serverSeed (SignonSeedExchangeResponse C sdata)) = Inr blob
              \<and> sendInfo W = None \<and> infoReply W = None))"
  by (auto simp: handler_defs flow_defs Let_def split: option.splits sum.splits)

lemma signon_exchangeSeeds_rejects:
  "connect W = None \<Longrightarrow> fst (exchangeSeeds C W this) = Rejected e
     \<Longrightarrow> outcome (signon C W this) = Rejected e"
  by (cases "exchangeSeeds C W this") (simp add: signon_def)

lemma signon_info_rejects:
  "connect W = None \<Longrightarrow> exchangeSeeds C W this = (Resolved s, after, sent)
     \<Longrightarrow> fst (info C W after s) = Rejected e \<Longrightarrow> outcome (signon C W this) = Rejected e"
  by (cases "info C W after s") (simp add: signon_def)

lemma exchangeSeeds_rejections:
  "fst (exchangeSeeds C W this) = Rejected e \<longleftrightarrow>
     sendSeedExchange W = Some e
     \<or> (sendSeedExchange W = None
        \<and> (\<exists>data. seedExchangeReply W = Some data
              \<and> fst (handleSeedExchangeResponse C (this\<lparr>seed := Some (requestSeed W)\<rparr>) data)
                  = Rejected e))"
  by (auto simp: exchangeSeeds_def Let_def split: option.splits prod.splits)

lemma info_rejections:
  "fst (info C W this s) = Rejected e \<longleftrightarrow>
     encrypt C (passwordLevel (system this)) (userId (system this)) (password (system this))
       (seed this) s = Inl e
     \<or> (\<exists>blob. encrypt C (passwordLevel (system this)) (userId (system this))
                  (password (system this)) (seed this) s = Inr blob
          \<and> (sendInfo W = Some e
             \<or> (sendInfo W = None
                \<and> (\<exists>data. infoReply W = Some data \<and> handleInfoResponse C this data = Rejected e))))"
  by (auto simp: info_def Let_def split: option.splits sum.splits)

text \<open>
  Claim C9, as amended. A run of \<^verbatim>\<open>signon\<close> in which the awaited replies arrive ends
  in exactly one outcome, resolved or rejected; a run stays pending, with no outcome,
  exactly when the reply it awaits never arrives: the connection is made, the request is
  sent, and no chunk comes back, in phase 1 or in phase 2. An error raised while
  connecting or during either phase is the error \<^verbatim>\<open>signon\<close> is rejected with: the
  rejection of \<^verbatim>\<open>connect\<close>, any rejection of \<^verbatim>\<open>exchangeSeeds\<close> and any rejection of
  \<^verbatim>\<open>info\<close>, so a throw of \<^verbatim>\<open>sendPacket\<close> or of the encryptor and the error of a
  reply handler alike. Nothing is retried: a run connects once, and sends each request and
  calls the encryptor at most once.
\<close>

theorem signon_settles_once_when_replies_arrive:
  "(seedExchangeReply W = Some sdata \<and> infoReply W = Some idata \<longrightarrow>
      (\<exists>a. outcome (signon C W this) = Resolved a) \<noteq> (\<exists>e. outcome (signon C W this) = Rejected e))
   \<and> (outcome (signon C W this) = Pending \<longleftrightarrow>
        connect W = None \<and> sendSeedExchange W = None
        \<and> (seedExchangeReply W = None
           \<or> (\<exists>reply blob. seedExchangeReply W = Some reply \<and> 24 \<le> length reply
                 \<and> seed_rc (SignonSeedExchangeResponse C reply) = 0
                 \<and> encrypt C (Some (resp_passwordLevel (SignonSeedExchangeResponse C reply)))
                      (userId (system this)) (password (system this)) (Some (requestSeed W))
                      (resp_serverSeed (SignonSeedExchangeResponse C reply)) = Inr blob
                 \<and> sendInfo W = None \<and> infoReply W = None)))
   \<and> (connect W = Some e \<longrightarrow> outcome (signon C W this) = Rejected e)
   \<and> (connect W = None \<and> fst (exchangeSeeds C W this) = Rejected e
       \<longrightarrow> outcome (signon C W this) = Rejected e)
   \<and> (connect W = None \<and> exchangeSeeds C W this = (Resolved s, after, sent)
        \<and> fst (info C W after s) = Rejected e
       \<longrightarrow> outcome (signon C W this) = Rejected e)
   \<and> (connect W = None \<and> sendSeedExchange W = Some e \<longrightarrow> outcome (signon C W this) = Rejected e)
   \<and> (connect W = None \<and> sendSeedExchange W = None
        \<and> seedExchangeReply W = Some sdata \<and> 24 \<le> length sdata
        \<and> seed_rc (SignonSeedExchangeResponse C sdata) = 0
        \<and> encrypt C (Some (resp_passwordLevel (SignonSeedExchangeResponse C sdata)))
             (userId (system this)) (password (system this)) (Some (requestSeed W))
             (resp_serverSeed (SignonSeedExchangeResponse C sdata)) = Inl e
       \<longrightarrow> outcome (signon C W this) = Rejected e)
   \<and> (connect W = None \<and> sendSeedExchange W = None
        \<and> seedExchangeReply W = Some sdata \<and> 24 \<le> length sdata
        \<and> seed_rc (SignonSeedExchangeResponse C sdata) = 0
        \<and> encrypt C (Some (resp_passwordLevel (SignonSeedExchangeResponse C sdata)))
             (userId (system this)) (password (system this)) (Some (requestSeed W))
             (resp_serverSeed (SignonSeedExchangeResponse C sdata)) = Inr blob
        \<and> sendInfo W = Some e
       \<longrightarrow> outcome (signon C W this) = Rejected e)
   \<and> length (filter (is_Connect \<circ> fst) (calls (signon C W this))) = 1
   \<and> length (filter (is_SendSeedExchangeRequest \<circ> fst) (calls (signon C W this))) \<le> 1
   \<and> length (filter (is_Encrypt \<circ> fst) (calls (signon C W this))) \<le> 1
   \<and> length (filter (is_SendInfoRequest \<circ> fst) (calls (signon C W this))) \<le> 1"
proof -
  have one: "(\<exists>a. outcome (signon C W this) = Resolved a) \<noteq> (\<exists>e. outcome (signon C W this) = Rejected e)"
    if "seedExchangeReply W = Some sdata" and "infoReply W = Some idata"
    using signon_settles[OF that, of C this] by (cases "outcome (signon C W this)") simp_all
  note pending = signon_pending_iff[of C W this]
  note raised = signon_connect_throws[of W e C this] signon_exchangeSeeds_rejects[of W C this e]
    signon_info_rejects[of W C this s after sent e]
    signon_sendSeedExchange_throws[of W e C this]
    signon_encrypt_throws[of W sdata C this e] signon_sendInfo_throws[of W sdata C this blob e]
  note once = signon_calls_once[of C W this]
  from one have c1: "seedExchangeReply W = Some sdata \<and> infoReply W = Some idata \<longrightarrow>
      (\<exists>a. outcome (signon C W this) = Resolved a) \<noteq> (\<exists>e. outcome (signon C W this) = Rejected e)"
    by blast
  have c3: "connect W = Some e \<longrightarrow> outcome (signon C W this) = Rejected e"
    using raised(1) by blast
  have c4: "connect W = None \<and> fst (exchangeSeeds C W this) = Rejected e
       \<longrightarrow> outcome (signon C W this) = Rejected e"
    using raised(2) by blast
  have c5: "connect W = None \<and> exchangeSeeds C W this = (Resolved s, after, sent)
        \<and> fst (info C W after s) = Rejected e
       \<longrightarrow> outcome (signon C W this) = Rejected e"
    using raised(3) by blast
  have c6: "connect W = None \<and> sendSeedExchange W = Some e \<longrightarrow> outcome (signon C W this) = Rejected e"
    using raised(4) by blast
  have c7: "connect W = None \<and> sendSeedExchange W = None
        \<and> seedExchangeReply W = Some sdata \<and> 24 \<le> length sdata
        \<and> seed_rc (SignonSeedExchangeResponse C sdata) = 0
        \<and> encrypt C (Some (resp_passwordLevel (SignonSeedExchangeResponse C sdata)))
             (userId (system this)) (password (system this)) (Some (requestSeed W))
             (resp_serverSeed (SignonSeedExchangeResponse C sdata)) = Inl e
       \<longrightarrow> outcome (signon C W this) = Rejected e"
    using raised(5) by blast
  have c8: "connect W = None \<and> sendSeedExchange W = None
        \<and> seedExchangeReply W = Some sdata \<and> 24 \<le> length sdata
        \<and> seed_rc (SignonSeedExchangeResponse C sdata) = 0
        \<and> encrypt C (Some (resp_passwordLevel (SignonSeedExchangeResponse C sdata)))
             (userId (system this)) (password (system this)) (Some (requestSeed W))
             (resp_serverSeed (SignonSeedExchangeResponse C sdata)) = Inr blob
        \<and> sendInfo W = Some e
       \<longrightarrow> outcome (signon C W this) = Rejected e"
    using raised(6) by blast
  show ?thesis
    by (intro conjI) (rule c1 pending c3 c4 c5 c6 c7 c8 once)+
qed

theorem signon_settles_once_when_replies_arrive_witness:
  "seedExchangeReply sample_world = Some reply_ok \<and> infoReply sample_world = Some reply_ok
   \<and> outcome (signon sample_collaborators sample_world sample_this) =
       Resolved \<lparr>serverCCSID = 37, currentSignonDate = 3, lastSignonDate = 2,
                 passwordExpirationDate = 9, expirationWarning = False,
                 attr_userId = ''ALICE''\<rparr>
   \<and> outcome (signon sample_collaborators (sample_world\<lparr>connect := Some (Error ''ECONNREFUSED'')\<rparr>)
        sample_this) = Rejected (Error ''ECONNREFUSED'')
   \<and> outcome (signon sample_collaborators (sample_world\<lparr>sendInfo := Some (Error ''EPIPE'')\<rparr>)
        sample_this) = Rejected (Error ''EPIPE'')
   \<and> outcome (signon sample_collaborators (sample_world\<lparr>infoReply := None\<rparr>) sample_this) = Pending
   \<and> length (filter (is_Connect \<circ> fst) (calls (signon sample_collaborators sample_world sample_this)))
       = 1"
proof -
  note run = signon_settles_once_when_replies_arrive
    [where W = sample_world and C = sample_collaborators and this = sample_this
       and sdata = reply_ok and idata = reply_ok and e = "Error ''x''" and blob = "[]"
       and s = "[]" and after = sample_this and sent = "[]"]
  note refused = signon_settles_once_when_replies_arrive
    [where W = "sample_world\<lparr>connect := Some (Error ''ECONNREFUSED'')\<rparr>"
       and C = sample_collaborators and this = sample_this
       and sdata = reply_ok and idata = reply_ok and e = "Error ''ECONNREFUSED''" and blob = "[]"
       and s = "[]" and after = sample_this and sent = "[]"]
  note broken = signon_settles_once_when_replies_arrive
    [where W = "sample_world\<lparr>sendInfo := Some (Error ''EPIPE'')\<rparr>"
       and C = sample_collaborators and this = sample_this
       and sdata = reply_ok and idata = reply_ok and e = "Error ''EPIPE''"
       and blob = "[9, 10, 11, 12, 13, 14, 15, 16, 42]"
       and s = "[]" and after = sample_this and sent = "[]"]
  note silent = signon_settles_once_when_replies_arrive
    [where W = "sample_world\<lparr>infoReply := None\<rparr>"
       and C = sample_collaborators and this = sample_this
       and sdata = reply_ok and idata = reply_ok and e = "Error ''x''" and blob = "[]"
       and s = "[]" and after = sample_this and sent = "[]"]
  have replies: "seedExchangeReply sample_world = Some reply_ok \<and> infoReply sample_world = Some reply_ok"
    by (simp add: sample_world_def)
  have resolved: "outcome (signon sample_collaborators sample_world sample_this) =
       Resolved \<lparr>serverCCSID = 37, currentSignonDate = 3, lastSignonDate = 2,
                 passwordExpirationDate = 9, expirationWarning = False,
                 attr_userId = ''ALICE''\<rparr>"
    by (simp add: sample_defs handler_defs flow_defs Let_def)
  have rejected: "outcome (signon sample_collaborators
        (sample_world\<lparr>connect := Some (Error ''ECONNREFUSED'')\<rparr>) sample_this)
       = Rejected (Error ''ECONNREFUSED'')"
    by (rule mp[OF refused[THEN conjunct2, THEN conjunct2, THEN conjunct1]]) simp
  have piped: "outcome (signon sample_collaborators
        (sample_world\<lparr>sendInfo := Some (Error ''EPIPE'')\<rparr>) sample_this) = Rejected (Error ''EPIPE'')"
    by (rule mp[OF broken[THEN conjunct2, THEN conjunct2, THEN conjunct2, THEN conjunct2,
          THEN conjunct2, THEN conjunct2, THEN conjunct2, THEN conjunct1]])
      (simp add: sample_defs)
  have pending: "outcome (signon sample_collaborators
        (sample_world\<lparr>infoReply := None\<rparr>) sample_this) = Pending"
    by (rule iffD2[OF silent[THEN conjunct2, THEN conjunct1]]) (simp add: sample_defs)
  have once: "length (filter (is_Connect \<circ> fst)
        (calls (signon sample_collaborators sample_world sample_this))) = 1"
    by (rule run[THEN conjunct2, THEN conjunct2, THEN conjunct2, THEN conjunct2,
          THEN conjunct2, THEN conjunct2, THEN conjunct2, THEN conjunct2, THEN conjunct1])
  from replies resolved rejected piped pending once show ?thesis by simp
qed

end
